theory Spec2Isabelle
  imports Main
begin

section \<open>The order service: data model\<close>

text \<open>
  The service (\<^verbatim>\<open>services/order-service/main.py\<close>) keeps its data in four tables of a
  relational store (\<^verbatim>\<open>cart\<close>, \<^verbatim>\<open>cart_items\<close>, \<^verbatim>\<open>orders\<close>, \<^verbatim>\<open>order_items\<close>), reads a
  fifth (\<^verbatim>\<open>products\<close>), caches carts in Redis and sends messages to an SQS queue.
  Every handler is modelled as a function from the state of these three collaborators to a
  result and the state it leaves behind.

  Identifiers are produced by the store (\<^verbatim>\<open>RETURNING id\<close>); they are modelled as natural
  numbers drawn from a per-table sequence. A timestamp is a number of seconds.

  A monetary amount is a Python \<^verbatim>\<open>Decimal\<close>, read from and written to a \<^verbatim>\<open>numeric\<close>
  column without change. The amounts of a store are multiples of one smallest unit (the
  largest scale among them), and an amount is modelled by its integer count of that unit.
  The arithmetic on amounts is that of the default \<^verbatim>\<open>decimal\<close> context and is defined
  below (\<open>dec_mul\<close>, \<open>dec_add\<close>).
\<close>

type_synonym ident = nat
type_synonym decimal = int
type_synonym timestamp = int

record cart_row =
  cart_row_id :: ident
  cart_row_user_id :: string
  cart_row_created_at :: timestamp
  cart_row_expires_at :: timestamp

record cart_item_row =
  ci_cart_id :: ident
  ci_product_id :: string
  ci_quantity :: int
  ci_price :: decimal

record order_row =
  order_row_id :: ident
  order_user_id :: string
  order_status :: string
  order_total :: decimal
  order_currency :: string
  order_created_at :: timestamp
  order_updated_at :: timestamp

record order_item_row =
  oi_order_id :: ident
  oi_product_id :: string
  oi_quantity :: int
  oi_price :: decimal

record product_row =
  product_row_id :: string
  product_name :: string
  product_image_url :: string

text \<open>
  \<^verbatim>\<open>float(total)\<close> converts an amount to a binary double. The model keeps the amount the
  double was made from under a constructor of its own and does not evaluate the rounding.
\<close>

datatype py_float = float decimal

text \<open>The values that occur in the dictionaries the order handler serialises.\<close>

datatype json = JStr string | JFloat py_float

type_synonym dict = "(string \<times> json) list"

record sqs_message =
  QueueUrl :: string
  MessageBody :: dict

text \<open>What \<^verbatim>\<open>get_cart\<close> returns and caches: the cart with its items joined to the products.\<close>

record cart_item_view =
  civ_cart_id :: ident
  civ_product_id :: string
  civ_quantity :: int
  civ_price :: decimal
  civ_name :: string
  civ_image_url :: string

record cart_result =
  result_id :: ident
  result_user_id :: string
  result_items :: "cart_item_view list"
  result_created_at :: timestamp

text \<open>
  The state of the collaborators. A Redis entry carries the time at which it expires.
  The two sequences are not part of a transaction: a rollback does not give an
  identifier back.
\<close>

record state =
  cart :: "cart_row list"
  cart_items :: "cart_item_row list"
  orders :: "order_row list"
  order_items :: "order_item_row list"
  products :: "product_row list"
  next_cart_id :: ident
  next_order_id :: ident
  redis :: "(ident \<times> cart_result \<times> timestamp) list"
  sqs :: "sqs_message list"

text \<open>
  Every call to a collaborator may raise. Which calls do is an input of the model
  (\<open>fails\<close>), next to the clock and the process environment.
\<close>

datatype call =
    Acquire
  | Fetch_cart_items
  | Insert_order
  | Insert_order_item nat
  | Delete_cart_items
  | Delete_cart
  | Send_message
  | Commit
  | Redis_get
  | Select_cart
  | Select_cart_items
  | Redis_setex
  | Update_orders
  | Insert_cart
  | Insert_cart_item nat

record env =
  now :: timestamp
  ORDER_QUEUE_URL :: "string option"
  fails :: "call \<Rightarrow> bool"

text \<open>
  \<^verbatim>\<open>HTTPException(status_code, detail)\<close> is what a handler raises to its caller; \<open>Exception\<close>
  stands for every other exception (a storage error, a \<^verbatim>\<open>ValueError\<close>, ...).
\<close>

datatype exn = HTTPException nat string | Exception

record CartItem =
  product_id :: string
  quantity :: int
  price :: decimal

record CreateCartRequest =
  cart_request_user_id :: string
  cart_request_items :: "CartItem list"

record CreateOrderRequest =
  user_id :: string
  cart_id :: ident
  shipping_address_id :: string
  billing_address_id :: string
  payment_method_id :: string

section \<open>Creating an order\<close>

text \<open>\<^verbatim>\<open>str(order_id)\<close>: the decimal digits of the identifier.\<close>

fun str :: "nat \<Rightarrow> string" where
  "str n = (if n < 10 then [char_of (48 + n)] else str (n div 10) @ [char_of (48 + n mod 10)])"

declare str.simps [simp del]

text \<open>
  Arithmetic on \<^verbatim>\<open>Decimal\<close> values in the default context (\<^verbatim>\<open>prec=28\<close>,
  \<^verbatim>\<open>ROUND_HALF_EVEN\<close>): the exact result of an operation is rounded to 28 significant
  digits, a tie going to the even neighbour. A coefficient of at most 28 digits is kept as
  it is; of a longer one the surplus digits are rounded away, sign and magnitude apart.
  Rounding a count of units to 28 significant digits gives a count of units again. The
  exponent limits of the context (999999 either way) are beyond what a \<^verbatim>\<open>numeric\<close> column
  holds and are not modelled.
\<close>

definition prec :: nat where
  "prec = 28"

text \<open>The number of decimal digits of a coefficient.\<close>

fun digits :: "nat \<Rightarrow> nat" where
  "digits n = (if n < 10 then 1 else Suc (digits (n div 10)))"

declare digits.simps [simp del]

text \<open>\<open>round_half_even n k\<close>: \<open>n\<close> without its last \<open>k\<close> digits, rounded half-even.\<close>

definition round_half_even :: "nat \<Rightarrow> nat \<Rightarrow> nat" where
  "round_half_even n k =
     (let q = n div 10 ^ k; r = n mod 10 ^ k in
      if 2 * r < 10 ^ k then q
      else if 10 ^ k < 2 * r then q + 1
      else if even q then q else q + 1)"

definition dec_fix :: "decimal \<Rightarrow> decimal" where
  "dec_fix x =
     (let n = nat \<bar>x\<bar> in
      if digits n \<le> prec then x
      else sgn x * int (round_half_even n (digits n - prec) * 10 ^ (digits n - prec)))"

text \<open>\<^verbatim>\<open>quantity * price\<close> (an \<^verbatim>\<open>int\<close> times a \<^verbatim>\<open>Decimal\<close>) and \<^verbatim>\<open>a + b\<close>.\<close>

definition dec_mul :: "int \<Rightarrow> decimal \<Rightarrow> decimal" where
  "dec_mul q p = dec_fix (q * p)"

definition dec_add :: "decimal \<Rightarrow> decimal \<Rightarrow> decimal" where
  "dec_add a b = dec_fix (a + b)"

text \<open>
  \<^verbatim>\<open>sum(item['quantity'] * item['price'] for item in cart_items)\<close>: \<^verbatim>\<open>sum\<close> starts from 0
  and adds the products from left to right.
\<close>

definition total_of :: "cart_item_row list \<Rightarrow> decimal" where
  "total_of items =
     foldl (\<lambda>acc item. dec_add acc (dec_mul (ci_quantity item) (ci_price item))) 0 items"

definition order_item_of :: "ident \<Rightarrow> cart_item_row \<Rightarrow> order_item_row" where
  "order_item_of oid item =
     \<lparr>oi_order_id = oid, oi_product_id = ci_product_id item,
      oi_quantity = ci_quantity item, oi_price = ci_price item\<rparr>"

text \<open>
  The loop that copies the cart items into \<^verbatim>\<open>order_items\<close>, one statement per item;
  \<open>k\<close> is the number of the statement. \<open>None\<close>: a statement raised.
\<close>

fun insert_order_items ::
  "(call \<Rightarrow> bool) \<Rightarrow> ident \<Rightarrow> nat \<Rightarrow> cart_item_row list \<Rightarrow> state \<Rightarrow> state option" where
  "insert_order_items f oid k [] s = Some s"
| "insert_order_items f oid k (item # rest) s =
     (if f (Insert_order_item k) then None
      else insert_order_items f oid (Suc k) rest
             (s\<lparr>order_items := order_items s @ [order_item_of oid item]\<rparr>))"

text \<open>
  The message goes out only when \<^verbatim>\<open>ORDER_QUEUE_URL\<close> is set and not empty
  (\<^verbatim>\<open>if queue_url:\<close>). \<open>None\<close>: \<^verbatim>\<open>send_message\<close> raised.
\<close>

definition order_created_event :: "CreateOrderRequest \<Rightarrow> ident \<Rightarrow> decimal \<Rightarrow> dict" where
  "order_created_event r oid tot =
     [(''event'', JStr ''OrderCreated''),
      (''order_id'', JStr (str oid)),
      (''user_id'', JStr (user_id r)),
      (''total'', JFloat (float tot)),
      (''payment_method_id'', JStr (payment_method_id r))]"

definition publish :: "env \<Rightarrow> CreateOrderRequest \<Rightarrow> ident \<Rightarrow> decimal \<Rightarrow> state \<Rightarrow> state option" where
  "publish e r oid tot s =
     (case ORDER_QUEUE_URL e of
        None \<Rightarrow> Some s
      | Some url \<Rightarrow>
          if url = [] then Some s
          else if fails e Send_message then None
          else Some (s\<lparr>sqs := sqs s @
                 [\<lparr>QueueUrl = url, MessageBody = order_created_event r oid tot\<rparr>]\<rparr>))"

definition order_created_response :: "ident \<Rightarrow> decimal \<Rightarrow> dict" where
  "order_created_response oid tot =
     [(''order_id'', JStr (str oid)),
      (''status'', JStr ''pending''),
      (''total'', JFloat (float tot)),
      (''message'', JStr ''Order created successfully'')]"

text \<open>
  The body of \<^verbatim>\<open>async with conn.transaction():\<close>. After the message is sent the handler
  updates its Prometheus counters; \<^verbatim>\<open>order_value_total...inc(float(total))\<close> raises
  \<^verbatim>\<open>ValueError\<close> on a negative amount (a counter only goes up), which is the only way the
  metrics calls fail. The counters themselves are not part of the state.
\<close>

definition create_order_body ::
  "env \<Rightarrow> CreateOrderRequest \<Rightarrow> state \<Rightarrow> (exn + dict) \<times> state" where
  "create_order_body e r s =
     (if fails e Fetch_cart_items then (Inl Exception, s)
      else
        let items = filter (\<lambda>item. ci_cart_id item = cart_id r) (cart_items s) in
        if items = [] then (Inl (HTTPException 404 ''Cart is empty''), s)
        else
          let tot = total_of items in
          if fails e Insert_order then (Inl Exception, s)
          else
            let oid = next_order_id s;
                s1 = s\<lparr>orders := orders s @
                        [\<lparr>order_row_id = oid, order_user_id = user_id r,
                          order_status = ''pending'', order_total = tot,
                          order_currency = ''USD'', order_created_at = now e,
                          order_updated_at = now e\<rparr>],
                       next_order_id := Suc oid\<rparr>
            in
              case insert_order_items (fails e) oid 0 items s1 of
                None \<Rightarrow> (Inl Exception, s1)
              | Some s2 \<Rightarrow>
                  if fails e Delete_cart_items then (Inl Exception, s2)
                  else
                    let s3 = s2\<lparr>cart_items :=
                               filter (\<lambda>item. ci_cart_id item \<noteq> cart_id r) (cart_items s2)\<rparr>
                    in
                      if fails e Delete_cart then (Inl Exception, s3)
                      else
                        let s4 = s3\<lparr>cart :=
                                   filter (\<lambda>c. cart_row_id c \<noteq> cart_id r) (cart s3)\<rparr>
                        in
                          (case publish e r oid tot s4 of
                             None \<Rightarrow> (Inl Exception, s4)
                           | Some s5 \<Rightarrow>
                               if tot < 0 then (Inl Exception, s5)
                               else (Inr (order_created_response oid tot), s5)))"

text \<open>
  A transaction: when the body raises, or the commit does, the four tables are as they
  were before; what was sent to the queue stays sent.
\<close>

definition rollback :: "state \<Rightarrow> state \<Rightarrow> state" where
  "rollback s s' =
     s'\<lparr>cart := cart s, cart_items := cart_items s,
        orders := orders s, order_items := order_items s\<rparr>"

definition transaction ::
  "(call \<Rightarrow> bool) \<Rightarrow> (state \<Rightarrow> (exn + 'a) \<times> state) \<Rightarrow> state \<Rightarrow> (exn + 'a) \<times> state" where
  "transaction f body s =
     (case body s of
        (Inl x, s') \<Rightarrow> (Inl x, rollback s s')
      | (Inr v, s') \<Rightarrow>
          if f Commit then (Inl Exception, rollback s s') else (Inr v, s'))"

text \<open>
  \<^verbatim>\<open>except HTTPException: raise\<close>, \<^verbatim>\<open>except Exception: raise HTTPException(500, ...)\<close>
\<close>

fun handle :: "string \<Rightarrow> (exn + 'a) \<times> state \<Rightarrow> (exn + 'a) \<times> state" where
  "handle msg (Inl (HTTPException code d), s) = (Inl (HTTPException code d), s)"
| "handle msg (Inl Exception, s) = (Inl (HTTPException 500 msg), s)"
| "handle msg (Inr v, s) = (Inr v, s)"

definition create_order :: "env \<Rightarrow> CreateOrderRequest \<Rightarrow> state \<Rightarrow> (exn + dict) \<times> state" where
  "create_order e r s =
     handle ''Failed to create order''
       (if fails e Acquire then (Inl Exception, s)
        else transaction (fails e) (create_order_body e r) s)"

section \<open>Several requests for one cart\<close>

text \<open>Requests that run one after another, each on the state the one before left.\<close>

fun create_orders ::
  "(env \<times> CreateOrderRequest) list \<Rightarrow> state \<Rightarrow> (exn + dict) list \<times> state" where
  "create_orders [] s = ([], s)"
| "create_orders ((e, r) # calls) s =
     (case create_order e r s of
        (res, s1) \<Rightarrow>
          (case create_orders calls s1 of (rest, s2) \<Rightarrow> (res # rest, s2)))"

text \<open>
  Every request is handled by a task of its own, so two requests can overlap. The handler
  takes no lock, its \<^verbatim>\<open>SELECT\<close> is a plain read and its \<^verbatim>\<open>DELETE\<close> has no condition, so
  nothing in the code keeps a second request from reading the cart items while the first
  is still on its way. To describe that, the handler is cut after its \<^verbatim>\<open>SELECT\<close>:
  \<open>begin_order\<close> acquires the connection, begins the transaction and reads the cart
  items; \<open>finish_order\<close> is the rest of the handler on the rows that were read, and
  \<open>create_order_rest\<close> the rest of the body of the transaction. A \<^verbatim>\<open>DELETE\<close> that
  matches no row is not an error.
\<close>

definition begin_order :: "env \<Rightarrow> CreateOrderRequest \<Rightarrow> state \<Rightarrow> exn + cart_item_row list" where
  "begin_order e r s =
     (if fails e Acquire \<or> fails e Fetch_cart_items then Inl Exception
      else Inr (filter (\<lambda>item. ci_cart_id item = cart_id r) (cart_items s)))"

definition create_order_rest ::
  "env \<Rightarrow> CreateOrderRequest \<Rightarrow> cart_item_row list \<Rightarrow> state \<Rightarrow> (exn + dict) \<times> state" where
  "create_order_rest e r items s =
     (if items = [] then (Inl (HTTPException 404 ''Cart is empty''), s)
      else
        let tot = total_of items in
        if fails e Insert_order then (Inl Exception, s)
        else
          let oid = next_order_id s;
              s1 = s\<lparr>orders := orders s @
                      [\<lparr>order_row_id = oid, order_user_id = user_id r,
                        order_status = ''pending'', order_total = tot,
                        order_currency = ''USD'', order_created_at = now e,
                        order_updated_at = now e\<rparr>],
                     next_order_id := Suc oid\<rparr>
          in
            case insert_order_items (fails e) oid 0 items s1 of
              None \<Rightarrow> (Inl Exception, s1)
            | Some s2 \<Rightarrow>
                if fails e Delete_cart_items then (Inl Exception, s2)
                else
                  let s3 = s2\<lparr>cart_items :=
                             filter (\<lambda>item. ci_cart_id item \<noteq> cart_id r) (cart_items s2)\<rparr>
                  in
                    if fails e Delete_cart then (Inl Exception, s3)
                    else
                      let s4 = s3\<lparr>cart :=
                                 filter (\<lambda>c. cart_row_id c \<noteq> cart_id r) (cart s3)\<rparr>
                      in
                        (case publish e r oid tot s4 of
                           None \<Rightarrow> (Inl Exception, s4)
                         | Some s5 \<Rightarrow>
                             if tot < 0 then (Inl Exception, s5)
                             else (Inr (order_created_response oid tot), s5)))"

definition finish_order ::
  "env \<Rightarrow> CreateOrderRequest \<Rightarrow> exn + cart_item_row list \<Rightarrow> state \<Rightarrow> (exn + dict) \<times> state" where
  "finish_order e r selected s =
     handle ''Failed to create order''
       (case selected of
          Inl x \<Rightarrow> (Inl x, s)
        | Inr items \<Rightarrow> transaction (fails e) (create_order_rest e r items) s)"

text \<open>
  Two overlapping requests: both read the cart items in the same state; then the first
  runs to its commit, then the second, on the rows it has read before.
\<close>

definition create_orders_overlapping ::
  "env \<Rightarrow> CreateOrderRequest \<Rightarrow> env \<Rightarrow> CreateOrderRequest \<Rightarrow> state \<Rightarrow>
     (exn + dict) \<times> (exn + dict) \<times> state" where
  "create_orders_overlapping e1 r1 e2 r2 s =
     (let selected1 = begin_order e1 r1 s;
          selected2 = begin_order e2 r2 s
      in case finish_order e1 r1 selected1 s of
           (res1, s1) \<Rightarrow>
             (case finish_order e2 r2 selected2 s1 of (res2, s2) \<Rightarrow> (res1, res2, s2)))"

section \<open>Carts\<close>

text \<open>
  The validator of \<^verbatim>\<open>CartItem\<close>: a quantity must be positive. A price is not checked.
  \<open>None\<close>: \<^verbatim>\<open>ValueError\<close>, the request never reaches the handler.
\<close>

definition quantity_must_be_positive :: "int \<Rightarrow> int option" where
  "quantity_must_be_positive v = (if v \<le> 0 then None else Some v)"

definition valid_cart_request :: "CreateCartRequest \<Rightarrow> bool" where
  "valid_cart_request r =
     list_all (\<lambda>item. quantity_must_be_positive (quantity item) \<noteq> None) (cart_request_items r)"

text \<open>The loop of \<^verbatim>\<open>create_cart\<close> over the items. \<open>None\<close>: a statement raised.\<close>

fun insert_cart_items ::
  "(call \<Rightarrow> bool) \<Rightarrow> ident \<Rightarrow> nat \<Rightarrow> CartItem list \<Rightarrow> state \<Rightarrow> state + state" where
  "insert_cart_items f cid k [] s = Inr s"
| "insert_cart_items f cid k (item # rest) s =
     (if f (Insert_cart_item k) then Inl s
      else insert_cart_items f cid (Suc k) rest
             (s\<lparr>cart_items := cart_items s @
                 [\<lparr>ci_cart_id = cid, ci_product_id = product_id item,
                   ci_quantity = quantity item, ci_price = price item\<rparr>]\<rparr>))"

text \<open>
  \<^verbatim>\<open>create_cart\<close> runs outside a transaction: what was inserted before a failing
  statement stays (\<open>Inl\<close> of the loop carries that state). Every exception becomes a 500.
\<close>

definition create_cart :: "env \<Rightarrow> CreateCartRequest \<Rightarrow> state \<Rightarrow> (exn + ident) \<times> state" where
  "create_cart e r s =
     (if fails e Acquire then (Inl (HTTPException 500 ''Failed to create cart''), s)
      else if fails e Insert_cart then (Inl (HTTPException 500 ''Failed to create cart''), s)
      else
        let cid = next_cart_id s;
            s1 = s\<lparr>cart := cart s @
                    [\<lparr>cart_row_id = cid, cart_row_user_id = cart_request_user_id r,
                      cart_row_created_at = now e, cart_row_expires_at = now e + 86400\<rparr>],
                   next_cart_id := Suc cid\<rparr>
        in
          case insert_cart_items (fails e) cid 0 (cart_request_items r) s1 of
            Inl s2 \<Rightarrow> (Inl (HTTPException 500 ''Failed to create cart''), s2)
          | Inr s2 \<Rightarrow> (Inr cid, s2))"

text \<open>
  The cache: \<^verbatim>\<open>get\<close> finds an entry that has not expired, \<^verbatim>\<open>setex\<close> replaces the entry
  of the key by one that lives \<open>ttl\<close> seconds. The key \<^verbatim>\<open>cart:<id>\<close> is the identifier.
\<close>

definition redis_get ::
  "(ident \<times> cart_result \<times> timestamp) list \<Rightarrow> ident \<Rightarrow> timestamp \<Rightarrow> cart_result option" where
  "redis_get c k t =
     (case map_of c k of
        None \<Rightarrow> None
      | Some (v, expires) \<Rightarrow> if t < expires then Some v else None)"

definition redis_setex ::
  "(ident \<times> cart_result \<times> timestamp) list \<Rightarrow> ident \<Rightarrow> int \<Rightarrow> cart_result \<Rightarrow> timestamp \<Rightarrow>
     (ident \<times> cart_result \<times> timestamp) list" where
  "redis_setex c k ttl v t = (k, v, t + ttl) # filter (\<lambda>entry. fst entry \<noteq> k) c"

text \<open>
  \<^verbatim>\<open>SELECT ci.*, p.name, p.image_url FROM cart_items ci JOIN products p
     ON ci.product_id = p.id WHERE ci.cart_id = $1\<close>
\<close>

definition cart_item_view_of :: "cart_item_row \<Rightarrow> product_row \<Rightarrow> cart_item_view" where
  "cart_item_view_of ci p =
     \<lparr>civ_cart_id = ci_cart_id ci, civ_product_id = ci_product_id ci,
      civ_quantity = ci_quantity ci, civ_price = ci_price ci,
      civ_name = product_name p, civ_image_url = product_image_url p\<rparr>"

definition select_cart_items :: "state \<Rightarrow> ident \<Rightarrow> cart_item_view list" where
  "select_cart_items s cid =
     concat (map (\<lambda>ci. map (cart_item_view_of ci)
                          (filter (\<lambda>p. product_row_id p = ci_product_id ci) (products s)))
                 (filter (\<lambda>ci. ci_cart_id ci = cid) (cart_items s)))"

text \<open>
  \<^verbatim>\<open>get_cart\<close>: the cache first, then the store; a cart read from the store is cached for
  300 seconds. The cached JSON text and the dictionary read back from it are modelled by
  the result itself.
\<close>

definition get_cart :: "env \<Rightarrow> ident \<Rightarrow> state \<Rightarrow> (exn + cart_result) \<times> state" where
  "get_cart e cid s =
     handle ''Failed to fetch cart''
       (if fails e Redis_get then (Inl Exception, s)
        else
          case redis_get (redis s) cid (now e) of
            Some cached \<Rightarrow> (Inr cached, s)
          | None \<Rightarrow>
              if fails e Acquire \<or> fails e Select_cart then (Inl Exception, s)
              else
                (case find (\<lambda>c. cart_row_id c = cid) (cart s) of
                   None \<Rightarrow> (Inl (HTTPException 404 ''Cart not found''), s)
                 | Some c \<Rightarrow>
                     if fails e Select_cart_items then (Inl Exception, s)
                     else
                       let result = \<lparr>result_id = cart_row_id c,
                                     result_user_id = cart_row_user_id c,
                                     result_items = select_cart_items s cid,
                                     result_created_at = cart_row_created_at c\<rparr>
                       in
                         if fails e Redis_setex then (Inl Exception, s)
                         else (Inr result,
                               s\<lparr>redis := redis_setex (redis s) cid 300 result (now e)\<rparr>)))"

section \<open>Order status\<close>

text \<open>
  \<^verbatim>\<open>UPDATE orders SET status = $1, updated_at = NOW() WHERE id = $2\<close>, a single statement
  outside any transaction; \<^verbatim>\<open>"UPDATE 0"\<close> is the answer of the store when no row matched.
\<close>

definition update_order_status ::
  "env \<Rightarrow> ident \<Rightarrow> string \<Rightarrow> state \<Rightarrow> (exn + string) \<times> state" where
  "update_order_status e oid st s =
     handle ''Failed to update order status''
       (if fails e Acquire \<or> fails e Update_orders then (Inl Exception, s)
        else if filter (\<lambda>ord. order_row_id ord = oid) (orders s) = []
        then (Inl (HTTPException 404 ''Order not found''), s)
        else (Inr ''Order status updated successfully'',
              s\<lparr>orders :=
                   map (\<lambda>ord. if order_row_id ord = oid
                              then ord\<lparr>order_status := st, order_updated_at := now e\<rparr>
                              else ord)
                       (orders s)\<rparr>))"

section \<open>Well-formed stores and a worked scenario\<close>

text \<open>
  The store hands out an order identifier once: every order, and every order item, refers
  to an identifier the sequence has already passed.
\<close>

definition ids_fresh :: "state \<Rightarrow> bool" where
  "ids_fresh s =
     (list_all (\<lambda>ord. order_row_id ord < next_order_id s) (orders s) \<and>
      list_all (\<lambda>oi. oi_order_id oi < next_order_id s) (order_items s))"

text \<open>
  The scenario of the specification: owner \<open>u1\<close> puts two units of product \<open>p1\<close> at 10.00
  (1000 hundredths) into a cart and orders it.
\<close>

definition no_faults :: "call \<Rightarrow> bool" where
  "no_faults c = False"

definition demo_env :: env where
  "demo_env = \<lparr>now = 1000, ORDER_QUEUE_URL = Some ''orders'', fails = no_faults\<rparr>"

definition empty_store :: state where
  "empty_store =
     \<lparr>cart = [], cart_items = [], orders = [], order_items = [],
      products = [\<lparr>product_row_id = ''p1'', product_name = ''Widget'',
                   product_image_url = ''widget.png''\<rparr>],
      next_cart_id = 1, next_order_id = 1, redis = [], sqs = []\<rparr>"

definition demo_cart_request :: CreateCartRequest where
  "demo_cart_request =
     \<lparr>cart_request_user_id = ''u1'',
      cart_request_items = [\<lparr>product_id = ''p1'', quantity = 2, price = 1000\<rparr>]\<rparr>"

definition demo_state :: state where
  "demo_state =
     empty_store
       \<lparr>cart := [\<lparr>cart_row_id = 1, cart_row_user_id = ''u1'',
                  cart_row_created_at = 1000, cart_row_expires_at = 87400\<rparr>],
        cart_items := [\<lparr>ci_cart_id = 1, ci_product_id = ''p1'',
                        ci_quantity = 2, ci_price = 1000\<rparr>],
        next_cart_id := 2\<rparr>"

definition demo_request :: CreateOrderRequest where
  "demo_request =
     \<lparr>user_id = ''u1'', cart_id = 1, shipping_address_id = ''a1'',
      billing_address_id = ''a2'', payment_method_id = ''pm1''\<rparr>"

definition demo_after :: state where
  "demo_after =
     empty_store
       \<lparr>orders := [\<lparr>order_row_id = 1, order_user_id = ''u1'', order_status = ''pending'',
                    order_total = 2000, order_currency = ''USD'',
                    order_created_at = 1000, order_updated_at = 1000\<rparr>],
        order_items := [\<lparr>oi_order_id = 1, oi_product_id = ''p1'',
                         oi_quantity = 2, oi_price = 1000\<rparr>],
        next_cart_id := 2, next_order_id := 2,
        sqs := [\<lparr>QueueUrl = ''orders'',
                 MessageBody = order_created_event demo_request 1 2000\<rparr>]\<rparr>"

text \<open>The order of the scenario, completed and then cancelled.\<close>

definition demo_completed :: state where
  "demo_completed =
     demo_after
       \<lparr>orders := [\<lparr>order_row_id = 1, order_user_id = ''u1'', order_status = ''completed'',
                    order_total = 2000, order_currency = ''USD'',
                    order_created_at = 1000, order_updated_at = 1000\<rparr>]\<rparr>"

definition demo_cancelled :: state where
  "demo_cancelled =
     demo_after
       \<lparr>orders := [\<lparr>order_row_id = 1, order_user_id = ''u1'', order_status = ''cancelled'',
                    order_total = 2000, order_currency = ''USD'',
                    order_created_at = 1000, order_updated_at = 1000\<rparr>]\<rparr>"

text \<open>The same cart read (and so cached) before it is ordered, and read again later.\<close>

definition demo_cart_result :: cart_result where
  "demo_cart_result =
     \<lparr>result_id = 1, result_user_id = ''u1'',
      result_items = [\<lparr>civ_cart_id = 1, civ_product_id = ''p1'', civ_quantity = 2,
                        civ_price = 1000, civ_name = ''Widget'',
                        civ_image_url = ''widget.png''\<rparr>],
      result_created_at = 1000\<rparr>"

definition demo_cached :: state where
  "demo_cached = demo_state\<lparr>redis := [(1, demo_cart_result, 1300)]\<rparr>"

definition demo_after_cached :: state where
  "demo_after_cached = demo_after\<lparr>redis := [(1, demo_cart_result, 1300)]\<rparr>"

definition later_env :: env where
  "later_env = demo_env\<lparr>now := 1100\<rparr>"

text \<open>A request that arrives long after the cart's expiry time.\<close>

definition late_env :: env where
  "late_env = demo_env\<lparr>now := 200000\<rparr>"

text \<open>A store whose statement \<^verbatim>\<open>DELETE FROM cart\<close> fails.\<close>

definition faulty_env :: env where
  "faulty_env = demo_env\<lparr>fails := (\<lambda>c. c = Delete_cart)\<rparr>"

text \<open>A cart with one unit at the price -10.00, which the validator lets through.\<close>

definition negative_cart_request :: CreateCartRequest where
  "negative_cart_request =
     \<lparr>cart_request_user_id = ''u1'',
      cart_request_items = [\<lparr>product_id = ''p1'', quantity = 1, price = - 1000\<rparr>]\<rparr>"

definition negative_state :: state where
  "negative_state =
     demo_state\<lparr>cart_items := [\<lparr>ci_cart_id = 1, ci_product_id = ''p1'',
                                   ci_quantity = 1, ci_price = - 1000\<rparr>]\<rparr>"

definition negative_after :: state where
  "negative_after =
     negative_state
       \<lparr>next_order_id := 2,
        sqs := [\<lparr>QueueUrl = ''orders'',
                 MessageBody = order_created_event demo_request 1 (- 1000)\<rparr>]\<rparr>"

text \<open>
  A store with an earlier order and two carts; the cart of \<open>u1\<close> holds three lines that
  add up to 2 * 10.00 + 3 * 2.50 + 1 * 99.99 = 127.49.
\<close>

definition basket_state :: state where
  "basket_state =
     \<lparr>cart = [\<lparr>cart_row_id = 1, cart_row_user_id = ''u1'',
                cart_row_created_at = 1000, cart_row_expires_at = 87400\<rparr>,
              \<lparr>cart_row_id = 2, cart_row_user_id = ''u2'',
                cart_row_created_at = 1000, cart_row_expires_at = 87400\<rparr>],
      cart_items = [\<lparr>ci_cart_id = 1, ci_product_id = ''p1'', ci_quantity = 2, ci_price = 1000\<rparr>,
                    \<lparr>ci_cart_id = 2, ci_product_id = ''p1'', ci_quantity = 5, ci_price = 1000\<rparr>,
                    \<lparr>ci_cart_id = 1, ci_product_id = ''p2'', ci_quantity = 3, ci_price = 250\<rparr>,
                    \<lparr>ci_cart_id = 1, ci_product_id = ''p3'', ci_quantity = 1, ci_price = 9999\<rparr>],
      orders = [\<lparr>order_row_id = 1, order_user_id = ''u0'', order_status = ''completed'',
                  order_total = 500, order_currency = ''USD'',
                  order_created_at = 10, order_updated_at = 20\<rparr>],
      order_items = [\<lparr>oi_order_id = 1, oi_product_id = ''p2'', oi_quantity = 2, oi_price = 250\<rparr>],
      products = [],
      next_cart_id = 3, next_order_id = 2, redis = [], sqs = []\<rparr>"

definition basket_after :: state where
  "basket_after =
     basket_state
       \<lparr>cart := [\<lparr>cart_row_id = 2, cart_row_user_id = ''u2'',
                  cart_row_created_at = 1000, cart_row_expires_at = 87400\<rparr>],
        cart_items := [\<lparr>ci_cart_id = 2, ci_product_id = ''p1'', ci_quantity = 5,
                        ci_price = 1000\<rparr>],
        orders := [\<lparr>order_row_id = 1, order_user_id = ''u0'', order_status = ''completed'',
                     order_total = 500, order_currency = ''USD'',
                     order_created_at = 10, order_updated_at = 20\<rparr>,
                   \<lparr>order_row_id = 2, order_user_id = ''u1'', order_status = ''pending'',
                     order_total = 12749, order_currency = ''USD'',
                     order_created_at = 1000, order_updated_at = 1000\<rparr>],
        order_items := [\<lparr>oi_order_id = 1, oi_product_id = ''p2'', oi_quantity = 2, oi_price = 250\<rparr>,
                        \<lparr>oi_order_id = 2, oi_product_id = ''p1'', oi_quantity = 2, oi_price = 1000\<rparr>,
                        \<lparr>oi_order_id = 2, oi_product_id = ''p2'', oi_quantity = 3, oi_price = 250\<rparr>,
                        \<lparr>oi_order_id = 2, oi_product_id = ''p3'', oi_quantity = 1, oi_price = 9999\<rparr>],
        next_order_id := 3,
        sqs := [\<lparr>QueueUrl = ''orders'',
                 MessageBody = order_created_event demo_request 2 12749\<rparr>]\<rparr>"

text \<open>A cart with one unit at the price 12345678901234567890123456789.01 (31 digits).\<close>

definition huge_cart_request :: CreateCartRequest where
  "huge_cart_request =
     \<lparr>cart_request_user_id = ''u1'',
      cart_request_items =
        [\<lparr>product_id = ''p1'', quantity = 1, price = 1234567890123456789012345678901\<rparr>]\<rparr>"

definition huge_state :: state where
  "huge_state =
     demo_state\<lparr>cart_items := [\<lparr>ci_cart_id = 1, ci_product_id = ''p1'', ci_quantity = 1,
                                   ci_price = 1234567890123456789012345678901\<rparr>]\<rparr>"

text \<open>
  The states the service can be in: it starts without orders, and every request moves it
  on, whatever the clock, the environment and the failures of the collaborators are.
\<close>

inductive reachable :: "state \<Rightarrow> bool" where
  initial: "orders s = [] \<Longrightarrow> order_items s = [] \<Longrightarrow> reachable s"
| after_create_cart: "reachable s \<Longrightarrow> create_cart e cr s = (res1, s') \<Longrightarrow> reachable s'"
| after_get_cart: "reachable s \<Longrightarrow> get_cart e cid s = (res2, s') \<Longrightarrow> reachable s'"
| after_create_order: "reachable s \<Longrightarrow> create_order e r s = (res3, s') \<Longrightarrow> reachable s'"
| after_update_order_status:
    "reachable s \<Longrightarrow> update_order_status e oid st s = (res4, s') \<Longrightarrow> reachable s'"

section \<open>Properties of order creation\<close>

lemmas demo_defs = demo_env_def empty_store_def demo_cart_request_def demo_state_def
  demo_request_def demo_after_def no_faults_def demo_completed_def demo_cancelled_def
  demo_cart_result_def demo_cached_def demo_after_cached_def later_env_def late_env_def
  faulty_env_def negative_cart_request_def negative_state_def negative_after_def
  basket_state_def basket_after_def huge_cart_request_def huge_state_def

text \<open>Below 28 digits the arithmetic on amounts is exact.\<close>

lemma digits_le: "n < 10 ^ k \<Longrightarrow> 0 < k \<Longrightarrow> digits n \<le> k"
proof (induction k arbitrary: n)
  case 0
  then show ?case by simp
next
  case (Suc k)
  show ?case
  proof (cases "n < 10")
    case True
    then show ?thesis by (subst digits.simps) simp
  next
    case False
    with Suc.prems have k: "0 < k"
      by (cases k) auto
    from Suc.prems have "n div 10 < 10 ^ k"
      by (simp add: less_mult_imp_div_less mult.commute)
    from Suc.IH [OF this k] False show ?thesis
      by (subst digits.simps) simp
  qed
qed

lemma dec_fix_small: "\<bar>x\<bar> < 10 ^ 28 \<Longrightarrow> dec_fix x = x"
proof -
  assume "\<bar>x\<bar> < 10 ^ 28"
  then have "nat \<bar>x\<bar> < 10 ^ 28"
    by (simp add: nat_less_iff)
  then have "digits (nat \<bar>x\<bar>) \<le> 28"
    by (rule digits_le) simp
  then show ?thesis
    by (simp add: dec_fix_def prec_def)
qed

lemmas total_eval = total_of_def dec_add_def dec_mul_def dec_fix_small

lemma foldl_dec_exact:
  "\<bar>acc\<bar> + (\<Sum>item\<leftarrow>items. \<bar>ci_quantity item * ci_price item\<bar>) < 10 ^ 28 \<Longrightarrow>
     foldl (\<lambda>acc item. dec_add acc (dec_mul (ci_quantity item) (ci_price item))) acc items =
       acc + (\<Sum>item\<leftarrow>items. ci_quantity item * ci_price item)"
proof (induction items arbitrary: acc)
  case Nil
  then show ?case by simp
next
  case (Cons item rest)
  let ?line = "ci_quantity item * ci_price item"
  from Cons.prems have bound:
    "\<bar>acc\<bar> + \<bar>?line\<bar> + (\<Sum>item\<leftarrow>rest. \<bar>ci_quantity item * ci_price item\<bar>) < 10 ^ 28"
    by simp
  have nonneg: "0 \<le> (\<Sum>item\<leftarrow>rest. \<bar>ci_quantity item * ci_price item\<bar>)"
    by (rule sum_list_nonneg) auto
  from bound nonneg have "\<bar>?line\<bar> < 10 ^ 28" and "\<bar>acc + ?line\<bar> < 10 ^ 28"
    by linarith+
  then have step: "dec_add acc (dec_mul (ci_quantity item) (ci_price item)) = acc + ?line"
    by (simp add: dec_add_def dec_mul_def dec_fix_small)
  from bound have
    "\<bar>acc + ?line\<bar> + (\<Sum>item\<leftarrow>rest. \<bar>ci_quantity item * ci_price item\<bar>) < 10 ^ 28"
    by linarith
  from Cons.IH [OF this] step show ?case
    by simp
qed

lemma total_of_exact:
  "(\<Sum>item\<leftarrow>items. \<bar>ci_quantity item * ci_price item\<bar>) < 10 ^ 28 \<Longrightarrow>
     total_of items = (\<Sum>item\<leftarrow>items. ci_quantity item * ci_price item)"
  using foldl_dec_exact [of 0 items] by (simp add: total_of_def)

lemma insert_order_items_Some:
  "insert_order_items f oid k items s = Some s' \<Longrightarrow>
     s' = s\<lparr>order_items := order_items s @ map (order_item_of oid) items\<rparr>"
proof (induction items arbitrary: k s)
  case Nil
  then show ?case by simp
next
  case (Cons item rest)
  from Cons.prems have rec:
    "insert_order_items f oid (Suc k) rest
       (s\<lparr>order_items := order_items s @ [order_item_of oid item]\<rparr>) = Some s'"
    by (simp split: if_splits)
  from Cons.IH [OF rec] show ?case by simp
qed

lemma publish_Some:
  "publish e r oid tot s = Some s' \<Longrightarrow>
     s' = s\<lparr>sqs := sqs s @
       (case ORDER_QUEUE_URL e of None \<Rightarrow> []
        | Some url \<Rightarrow> if url = [] then []
            else [\<lparr>QueueUrl = url, MessageBody = order_created_event r oid tot\<rparr>])\<rparr>"
  by (auto simp: publish_def split: option.splits if_splits)

lemma create_order_body_Inr:
  assumes "create_order_body e r s = (Inr resp, s')"
  shows "filter (\<lambda>item. ci_cart_id item = cart_id r) (cart_items s) \<noteq> []"
    and "0 \<le> total_of (filter (\<lambda>item. ci_cart_id item = cart_id r) (cart_items s))"
    and "resp = order_created_response (next_order_id s)
           (total_of (filter (\<lambda>item. ci_cart_id item = cart_id r) (cart_items s)))"
    and "s' = s\<lparr>orders := orders s @
                  [\<lparr>order_row_id = next_order_id s, order_user_id = user_id r,
                    order_status = ''pending'',
                    order_total = total_of (filter (\<lambda>item. ci_cart_id item = cart_id r) (cart_items s)),
                    order_currency = ''USD'', order_created_at = now e,
                    order_updated_at = now e\<rparr>],
                order_items := order_items s @
                  map (order_item_of (next_order_id s))
                    (filter (\<lambda>item. ci_cart_id item = cart_id r) (cart_items s)),
                cart_items := filter (\<lambda>item. ci_cart_id item \<noteq> cart_id r) (cart_items s),
                cart := filter (\<lambda>c. cart_row_id c \<noteq> cart_id r) (cart s),
                next_order_id := Suc (next_order_id s),
                sqs := sqs s @
                  (case ORDER_QUEUE_URL e of None \<Rightarrow> []
                   | Some url \<Rightarrow> if url = [] then []
                       else [\<lparr>QueueUrl = url, MessageBody = order_created_event r (next_order_id s)
                          (total_of (filter (\<lambda>item. ci_cart_id item = cart_id r) (cart_items s)))\<rparr>])\<rparr>"
  using assms
  by (auto simp: create_order_body_def Let_def split: if_splits option.splits
      dest!: insert_order_items_Some publish_Some)

lemma create_order_Inr_body:
  assumes "create_order e r s = (Inr resp, s')"
  shows "create_order_body e r s = (Inr resp, s')"
proof -
  from assms have na: "\<not> fails e Acquire"
    by (auto simp: create_order_def)
  obtain res s1 where b: "create_order_body e r s = (res, s1)"
    by (cases "create_order_body e r s")
  show ?thesis
  proof (cases res)
    case (Inl x)
    with assms na b show ?thesis
      by (cases x) (simp_all add: create_order_def transaction_def)
  next
    case (Inr v)
    with assms na b show ?thesis
      by (simp add: create_order_def transaction_def split: if_splits)
  qed
qed

lemma filter_fresh:
  "list_all (\<lambda>x. f x < (n::nat)) xs \<Longrightarrow> filter (\<lambda>x. f x = n) xs = []"
  by (induction xs) auto

lemma sum_order_items:
  "sum_list (map ((\<lambda>oi. oi_quantity oi * oi_price oi) \<circ> order_item_of oid) items) =
     (\<Sum>item\<leftarrow>items. ci_quantity item * ci_price item)"
  by (induction items) (simp_all add: order_item_of_def)

lemma filter_order_item_of:
  "filter (\<lambda>oi. oi_order_id oi = oid) (map (order_item_of oid) items) = map (order_item_of oid) items"
  by (induction items) (simp_all add: order_item_of_def)

text \<open>The scenario runs as the specification describes it.\<close>

lemma demo_create_cart:
  "create_cart demo_env demo_cart_request empty_store = (Inr 1, demo_state)"
  by (simp add: create_cart_def demo_defs Let_def)

lemma demo_run:
  "create_order demo_env demo_request demo_state =
     (Inr (order_created_response 1 2000), demo_after)"
  by (simp add: create_order_def transaction_def create_order_body_def publish_def
      total_eval order_item_of_def demo_defs Let_def)

lemma demo_ids_fresh: "ids_fresh demo_state"
  by (simp add: ids_fresh_def demo_defs)

text \<open>
  Claim C9. Every order that \<open>create_order\<close> creates carries the currency code \<open>USD\<close>,
  whatever the request and the prices of the cart items are: a successful call appends
  exactly one row to \<open>orders\<close>, the row has the identifier the response reports, and its
  currency is \<open>USD\<close>.
\<close>

theorem create_order_currency_usd:
  assumes "create_order e r s = (Inr resp, s')"
  shows "\<exists>ord. orders s' = orders s @ [ord] \<and> order_row_id ord = next_order_id s \<and>
           order_currency ord = ''USD'' \<and>
           map_of resp ''order_id'' = Some (JStr (str (order_row_id ord)))"
proof -
  note b = create_order_body_Inr [OF create_order_Inr_body [OF assms]]
  show ?thesis
    by (subst b(4), subst b(3)) (simp add: order_created_response_def)
qed

theorem create_order_currency_usd_witness:
  "create_order demo_env demo_request demo_state =
     (Inr (order_created_response 1 2000), demo_after) \<and>
   (\<exists>ord. orders demo_after = orders demo_state @ [ord] \<and>
      order_row_id ord = next_order_id demo_state \<and> order_currency ord = ''USD'' \<and>
      map_of (order_created_response 1 2000) ''order_id'' = Some (JStr (str (order_row_id ord))))"
  using demo_run create_order_currency_usd [OF demo_run] by (rule conjI)

text \<open>
  Claim C7, as the code has it. For every order that \<open>create_order\<close> creates from a cart
  whose line amounts, taken without sign, add up to less than \<open>10 ^ 28\<close> units, the total
  recorded on the order row equals the sum, over the order items stored for that order,
  of quantity times unit price, exactly. (Within that bound no product and no partial sum
  has more than 28 digits.) The store hands out fresh identifiers (\<open>ids_fresh\<close>, which
  holds in every reachable state).
\<close>

theorem create_order_total_exact:
  assumes "create_order e r s = (Inr resp, s')" and "ids_fresh s"
    and "(\<Sum>item\<leftarrow>filter (\<lambda>item. ci_cart_id item = cart_id r) (cart_items s).
            \<bar>ci_quantity item * ci_price item\<bar>) < 10 ^ 28"
  shows "\<exists>ord. filter (\<lambda>x. order_row_id x = next_order_id s) (orders s') = [ord] \<and>
           map_of resp ''order_id'' = Some (JStr (str (order_row_id ord))) \<and>
           order_total ord =
             (\<Sum>oi\<leftarrow>filter (\<lambda>oi. oi_order_id oi = order_row_id ord) (order_items s').
                oi_quantity oi * oi_price oi)"
proof -
  note b = create_order_body_Inr [OF create_order_Inr_body [OF assms(1)]]
  from assms(2) have f1: "filter (\<lambda>x. order_row_id x = next_order_id s) (orders s) = []"
    and f2: "filter (\<lambda>oi. oi_order_id oi = next_order_id s) (order_items s) = []"
    by (simp_all add: ids_fresh_def filter_fresh)
  note ex = total_of_exact [OF assms(3)]
  show ?thesis
    by (subst b(4), subst b(4), subst b(3))
       (simp add: order_created_response_def f1 f2 filter_order_item_of sum_order_items ex)
qed

lemma basket_run:
  "create_order demo_env demo_request basket_state =
     (Inr (order_created_response 2 12749), basket_after)"
  by (simp add: create_order_def transaction_def create_order_body_def publish_def
      total_eval order_item_of_def demo_defs Let_def)

theorem create_order_total_exact_witness:
  "create_order demo_env demo_request basket_state =
     (Inr (order_created_response 2 12749), basket_after) \<and> ids_fresh basket_state \<and>
   (\<Sum>item\<leftarrow>filter (\<lambda>item. ci_cart_id item = cart_id demo_request) (cart_items basket_state).
      \<bar>ci_quantity item * ci_price item\<bar>) = 12749 \<and> (12749 :: int) < 10 ^ 28 \<and>
   (\<exists>ord. filter (\<lambda>x. order_row_id x = next_order_id basket_state) (orders basket_after) = [ord] \<and>
      map_of (order_created_response 2 12749) ''order_id'' = Some (JStr (str (order_row_id ord))) \<and>
      order_total ord =
        (\<Sum>oi\<leftarrow>filter (\<lambda>oi. oi_order_id oi = order_row_id ord) (order_items basket_after).
           oi_quantity oi * oi_price oi)) \<and>
   map order_total (filter (\<lambda>x. order_row_id x = 2) (orders basket_after)) = [12749] \<and>
   map (\<lambda>oi. oi_quantity oi * oi_price oi)
     (filter (\<lambda>oi. oi_order_id oi = 2) (order_items basket_after)) = [2000, 750, 9999]"
proof -
  have fresh: "ids_fresh basket_state"
    by (simp add: ids_fresh_def demo_defs)
  have sum: "(\<Sum>item\<leftarrow>filter (\<lambda>item. ci_cart_id item = cart_id demo_request)
                 (cart_items basket_state). \<bar>ci_quantity item * ci_price item\<bar>) = 12749"
    by (simp add: demo_defs)
  then have bound: "(\<Sum>item\<leftarrow>filter (\<lambda>item. ci_cart_id item = cart_id demo_request)
                 (cart_items basket_state). \<bar>ci_quantity item * ci_price item\<bar>) < 10 ^ 28"
    by simp
  have rows: "map order_total (filter (\<lambda>x. order_row_id x = 2) (orders basket_after)) = [12749]"
    "map (\<lambda>oi. oi_quantity oi * oi_price oi)
       (filter (\<lambda>oi. oi_order_id oi = 2) (order_items basket_after)) = [2000, 750, 9999]"
    by (simp_all add: demo_defs)
  have small: "(12749 :: int) < 10 ^ 28"
    by simp
  from basket_run fresh sum small rows create_order_total_exact [OF basket_run fresh bound]
  show ?thesis by blast
qed

text \<open>
  Claim C7 as stated fails beyond 28 digits. One unit at the price
  12345678901234567890123456789.01 passes the validator and is stored as it is; the
  product \<^verbatim>\<open>1 * price\<close> is rounded to 28 significant digits, so the order records the
  total 12345678901234567890123456790.00 while its one order item still carries the
  price with all 31 digits.
\<close>

lemma digits_huge: "digits 1234567890123456789012345678901 = 31"
  by (simp add: digits.simps)

lemma dec_fix_huge:
  "dec_fix 1234567890123456789012345678901 = 1234567890123456789012345679000"
  by (simp add: dec_fix_def prec_def round_half_even_def Let_def digits_huge)

lemma total_of_huge:
  "total_of (filter (\<lambda>item. ci_cart_id item = cart_id demo_request) (cart_items huge_state)) =
     1234567890123456789012345679000"
proof -
  have "digits 1234567890123456789012345679000 = 31"
    by (simp add: digits.simps)
  then have "dec_fix 1234567890123456789012345679000 = 1234567890123456789012345679000"
    by (simp add: dec_fix_def prec_def round_half_even_def Let_def)
  then show ?thesis
    by (simp add: total_of_def dec_add_def dec_mul_def dec_fix_huge demo_defs)
qed

theorem create_order_total_rounded_counterexample:
  "valid_cart_request huge_cart_request \<and>
   create_cart demo_env huge_cart_request empty_store = (Inr 1, huge_state) \<and>
   fst (create_order demo_env demo_request huge_state) =
     Inr (order_created_response 1 1234567890123456789012345679000) \<and>
   map order_total (orders (snd (create_order demo_env demo_request huge_state))) =
     [1234567890123456789012345679000] \<and>
   map (\<lambda>oi. oi_quantity oi * oi_price oi)
     (order_items (snd (create_order demo_env demo_request huge_state))) =
     [1234567890123456789012345678901]"
proof -
  have "valid_cart_request huge_cart_request"
    by (simp add: valid_cart_request_def quantity_must_be_positive_def demo_defs)
  moreover have "create_cart demo_env huge_cart_request empty_store = (Inr 1, huge_state)"
    by (simp add: create_cart_def demo_defs Let_def)
  moreover have "cart_id demo_request = 1"
    by (simp add: demo_defs)
  moreover have "create_order demo_env demo_request huge_state =
      (Inr (order_created_response 1 1234567890123456789012345679000),
       huge_state
         \<lparr>cart := [], cart_items := [],
          orders := [\<lparr>order_row_id = 1, order_user_id = ''u1'', order_status = ''pending'',
                       order_total = 1234567890123456789012345679000, order_currency = ''USD'',
                       order_created_at = 1000, order_updated_at = 1000\<rparr>],
          order_items := [\<lparr>oi_order_id = 1, oi_product_id = ''p1'', oi_quantity = 1,
                           oi_price = 1234567890123456789012345678901\<rparr>],
          next_order_id := 2,
          sqs := [\<lparr>QueueUrl = ''orders'',
                   MessageBody = order_created_event demo_request 1
                     1234567890123456789012345679000\<rparr>]\<rparr>)"
    using total_of_huge
    by (simp add: create_order_def transaction_def create_order_body_def publish_def
        order_item_of_def demo_defs Let_def)
  ultimately show ?thesis
    by simp
qed

section \<open>Properties of the status update\<close>

lemma update_order_status_Inr:
  assumes "update_order_status e oid st s = (Inr msg, s')"
  shows "s' = s\<lparr>orders :=
                 map (\<lambda>ord. if order_row_id ord = oid
                            then ord\<lparr>order_status := st, order_updated_at := now e\<rparr>
                            else ord)
                     (orders s)\<rparr>"
    and "filter (\<lambda>ord. order_row_id ord = oid) (orders s) \<noteq> []"
  using assms by (auto simp: update_order_status_def split: if_splits)

lemma set_status_keeps_others:
  "filter (\<lambda>x. order_row_id x \<noteq> oid)
     (map (\<lambda>ord. if order_row_id ord = oid
                 then ord\<lparr>order_status := st, order_updated_at := t\<rparr> else ord) xs) =
   filter (\<lambda>x. order_row_id x \<noteq> oid) xs"
  by (induction xs) auto

lemma set_status_sets:
  "list_all (\<lambda>x. order_status x = st \<and> order_updated_at x = t)
     (filter (\<lambda>x. order_row_id x = oid)
       (map (\<lambda>ord. if order_row_id ord = oid
                   then ord\<lparr>order_status := st, order_updated_at := t\<rparr> else ord) xs))"
  by (induction xs) auto

lemma set_status_length:
  "length (filter (\<lambda>x. order_row_id x = oid)
       (map (\<lambda>ord. if order_row_id ord = oid
                   then ord\<lparr>order_status := st, order_updated_at := t\<rparr> else ord) xs)) =
   length (filter (\<lambda>x. order_row_id x = oid) xs)"
  by (induction xs) auto

lemma demo_complete:
  "update_order_status demo_env 1 ''completed'' demo_after =
     (Inr ''Order status updated successfully'', demo_completed)"
  by (simp add: update_order_status_def demo_defs)

text \<open>
  Claim C10. A successful \<open>update_order_status\<close> changes only the status and the
  \<open>updated_at\<close> column of the order it names: identifier, owner, total, currency and
  creation time of every order are as before, orders with another identifier are
  untouched, and so are the order items and everything else in the state.
\<close>

theorem update_order_status_frame:
  assumes "update_order_status e oid st s = (Inr msg, s')"
  shows "map order_row_id (orders s') = map order_row_id (orders s) \<and>
         map order_user_id (orders s') = map order_user_id (orders s) \<and>
         map order_total (orders s') = map order_total (orders s) \<and>
         map order_currency (orders s') = map order_currency (orders s) \<and>
         map order_created_at (orders s') = map order_created_at (orders s) \<and>
         filter (\<lambda>x. order_row_id x \<noteq> oid) (orders s') =
           filter (\<lambda>x. order_row_id x \<noteq> oid) (orders s) \<and>
         order_items s' = order_items s \<and> cart s' = cart s \<and>
         cart_items s' = cart_items s \<and> products s' = products s \<and>
         redis s' = redis s \<and> sqs s' = sqs s"
proof -
  note u = update_order_status_Inr(1) [OF assms]
  show ?thesis
    by (subst u)+ (simp add: set_status_keeps_others comp_def if_distrib cong: if_cong)
qed

theorem update_order_status_frame_witness:
  "update_order_status demo_env 1 ''completed'' demo_after =
     (Inr ''Order status updated successfully'', demo_completed) \<and>
   map order_row_id (orders demo_completed) = map order_row_id (orders demo_after) \<and>
   map order_user_id (orders demo_completed) = map order_user_id (orders demo_after) \<and>
   map order_total (orders demo_completed) = map order_total (orders demo_after) \<and>
   map order_currency (orders demo_completed) = map order_currency (orders demo_after) \<and>
   map order_created_at (orders demo_completed) = map order_created_at (orders demo_after) \<and>
   filter (\<lambda>x. order_row_id x \<noteq> 1) (orders demo_completed) =
     filter (\<lambda>x. order_row_id x \<noteq> 1) (orders demo_after) \<and>
   order_items demo_completed = order_items demo_after \<and> cart demo_completed = cart demo_after \<and>
   cart_items demo_completed = cart_items demo_after \<and>
   products demo_completed = products demo_after \<and>
   redis demo_completed = redis demo_after \<and> sqs demo_completed = sqs demo_after"
  using demo_complete update_order_status_frame [OF demo_complete] by (rule conjI)

text \<open>
  Claim C6, as the code has it. The handler has no state machine: when the store answers,
  an update of an order that exists succeeds whatever its current status and whatever the
  new status is, and every row with that identifier then has the new status; the only
  failure is 404 \<open>Order not found\<close> for an identifier without a row, which leaves the state
  unchanged.
\<close>

theorem update_order_status_unconditional:
  assumes "\<not> fails e Acquire" and "\<not> fails e Update_orders"
  shows "if filter (\<lambda>x. order_row_id x = oid) (orders s) = []
         then update_order_status e oid st s = (Inl (HTTPException 404 ''Order not found''), s)
         else (\<exists>s'. update_order_status e oid st s =
                       (Inr ''Order status updated successfully'', s') \<and>
                 list_all (\<lambda>x. order_status x = st \<and> order_updated_at x = now e)
                   (filter (\<lambda>x. order_row_id x = oid) (orders s')) \<and>
                 length (filter (\<lambda>x. order_row_id x = oid) (orders s')) =
                   length (filter (\<lambda>x. order_row_id x = oid) (orders s)))"
proof (cases "filter (\<lambda>x. order_row_id x = oid) (orders s) = []")
  case True
  with assms show ?thesis
    by (simp add: update_order_status_def)
next
  case False
  let ?s' = "s\<lparr>orders :=
                 map (\<lambda>ord. if order_row_id ord = oid
                            then ord\<lparr>order_status := st, order_updated_at := now e\<rparr>
                            else ord)
                     (orders s)\<rparr>"
  from False assms have run:
    "update_order_status e oid st s = (Inr ''Order status updated successfully'', ?s')"
    by (simp add: update_order_status_def)
  have "list_all (\<lambda>x. order_status x = st \<and> order_updated_at x = now e)
          (filter (\<lambda>x. order_row_id x = oid) (orders ?s'))"
    using set_status_sets [where st=st and t="now e" and oid=oid and xs="orders s"] by simp
  moreover have "length (filter (\<lambda>x. order_row_id x = oid) (orders ?s')) =
      length (filter (\<lambda>x. order_row_id x = oid) (orders s))"
    using set_status_length [where st=st and t="now e" and oid=oid and xs="orders s"] by simp
  ultimately show ?thesis
    using False run by simp
qed

theorem update_order_status_unconditional_witness:
  "\<not> fails demo_env Acquire \<and> \<not> fails demo_env Update_orders \<and>
   (if filter (\<lambda>x. order_row_id x = 1) (orders demo_completed) = []
    then update_order_status demo_env 1 ''pending'' demo_completed =
           (Inl (HTTPException 404 ''Order not found''), demo_completed)
    else (\<exists>s'. update_order_status demo_env 1 ''pending'' demo_completed =
                  (Inr ''Order status updated successfully'', s') \<and>
            list_all (\<lambda>x. order_status x = ''pending'' \<and> order_updated_at x = now demo_env)
              (filter (\<lambda>x. order_row_id x = 1) (orders s')) \<and>
            length (filter (\<lambda>x. order_row_id x = 1) (orders s')) =
              length (filter (\<lambda>x. order_row_id x = 1) (orders demo_completed))))"
proof -
  have h1: "\<not> fails demo_env Acquire" and h2: "\<not> fails demo_env Update_orders"
    by (simp_all add: demo_defs)
  from h1 h2
    update_order_status_unconditional [OF h1 h2, where oid = 1 and s = demo_completed and st = "''pending''"]
  show ?thesis by blast
qed

text \<open>
  Claim C6 as stated fails: the completed order of the scenario is cancelled by a
  second update, which the specification's state machine forbids.
\<close>

theorem update_order_status_terminal_counterexample:
  "map order_status (orders demo_completed) = [''completed''] \<and>
   update_order_status demo_env 1 ''cancelled'' demo_completed =
     (Inr ''Order status updated successfully'', demo_cancelled) \<and>
   map order_status (orders demo_cancelled) = [''cancelled'']"
  by (simp add: update_order_status_def demo_defs)

section \<open>Events and monetary values of order creation\<close>

text \<open>What the body of the transaction does is independent of how the commit will go.\<close>

lemma insert_order_items_Commit:
  "insert_order_items (f(Commit := c)) oid k items s = insert_order_items f oid k items s"
  by (induction items arbitrary: k s) simp_all

lemma create_order_body_Commit:
  "create_order_body (e\<lparr>fails := (fails e)(Commit := c)\<rparr>) r s = create_order_body e r s"
proof -
  have p: "publish (e\<lparr>fails := (fails e)(Commit := c)\<rparr>) r oid tot t = publish e r oid tot t"
    for oid tot t
    by (simp add: publish_def split: option.splits)
  show ?thesis
    by (simp add: create_order_body_def p insert_order_items_Commit Let_def
        cong: option.case_cong if_cong)
qed

text \<open>
  Claim C2, as the code has it. The store has no outbox table and \<open>create_order\<close> writes
  no outbox row. When \<^verbatim>\<open>ORDER_QUEUE_URL\<close> is set and not empty, a successful call has
  sent exactly one message to the queue during the request: its event is \<open>OrderCreated\<close>
  and its \<open>order_id\<close> is the identifier of the new order, the one the response reports.
  When the variable is not set, nothing is sent. The message is sent inside the
  transaction, before the commit: had the commit of the same call failed, the call would
  have ended in a 500 with no order stored and the same message sent.
\<close>

theorem create_order_publishes_synchronously:
  assumes "create_order e r s = (Inr resp, s')"
  shows "(case ORDER_QUEUE_URL e of
            None \<Rightarrow> sqs s' = sqs s
          | Some url \<Rightarrow>
              if url = [] then sqs s' = sqs s
              else (\<exists>m. sqs s' = sqs s @ [m] \<and> QueueUrl m = url \<and>
                      map_of (MessageBody m) ''event'' = Some (JStr ''OrderCreated'') \<and>
                      map_of (MessageBody m) ''order_id'' = Some (JStr (str (next_order_id s))) \<and>
                      map_of resp ''order_id'' = Some (JStr (str (next_order_id s))))) \<and>
         (\<exists>s''. create_order (e\<lparr>fails := (fails e)(Commit := True)\<rparr>) r s =
                   (Inl (HTTPException 500 ''Failed to create order''), s'') \<and>
                 sqs s'' = sqs s' \<and> orders s'' = orders s \<and> order_items s'' = order_items s)"
proof -
  note body = create_order_Inr_body [OF assms]
  note b = create_order_body_Inr [OF body]
  from assms have na: "\<not> fails e Acquire"
    by (auto simp: create_order_def)
  have first: "case ORDER_QUEUE_URL e of
            None \<Rightarrow> sqs s' = sqs s
          | Some url \<Rightarrow>
              if url = [] then sqs s' = sqs s
              else (\<exists>m. sqs s' = sqs s @ [m] \<and> QueueUrl m = url \<and>
                      map_of (MessageBody m) ''event'' = Some (JStr ''OrderCreated'') \<and>
                      map_of (MessageBody m) ''order_id'' = Some (JStr (str (next_order_id s))) \<and>
                      map_of resp ''order_id'' = Some (JStr (str (next_order_id s))))"
    using b(3) b(4)
    by (auto simp: order_created_response_def order_created_event_def split: option.splits)
  from na body have
    "create_order (e\<lparr>fails := (fails e)(Commit := True)\<rparr>) r s =
       (Inl (HTTPException 500 ''Failed to create order''), rollback s s')"
    by (simp add: create_order_def transaction_def create_order_body_Commit)
  moreover have "sqs (rollback s s') = sqs s'" "orders (rollback s s') = orders s"
    "order_items (rollback s s') = order_items s"
    by (simp_all add: rollback_def)
  ultimately have second:
    "\<exists>s''. create_order (e\<lparr>fails := (fails e)(Commit := True)\<rparr>) r s =
            (Inl (HTTPException 500 ''Failed to create order''), s'') \<and>
          sqs s'' = sqs s' \<and> orders s'' = orders s \<and> order_items s'' = order_items s"
    by blast
  from first second show ?thesis by (rule conjI)
qed

theorem create_order_publishes_synchronously_witness:
  "create_order demo_env demo_request demo_state =
     (Inr (order_created_response 1 2000), demo_after) \<and>
   (case ORDER_QUEUE_URL demo_env of
      None \<Rightarrow> sqs demo_after = sqs demo_state
    | Some url \<Rightarrow>
        if url = [] then sqs demo_after = sqs demo_state
        else (\<exists>m. sqs demo_after = sqs demo_state @ [m] \<and> QueueUrl m = url \<and>
                map_of (MessageBody m) ''event'' = Some (JStr ''OrderCreated'') \<and>
                map_of (MessageBody m) ''order_id'' = Some (JStr (str (next_order_id demo_state))) \<and>
                map_of (order_created_response 1 2000) ''order_id'' =
                  Some (JStr (str (next_order_id demo_state))))) \<and>
   (\<exists>s''. create_order (demo_env\<lparr>fails := (fails demo_env)(Commit := True)\<rparr>) demo_request
             demo_state = (Inl (HTTPException 500 ''Failed to create order''), s'') \<and>
           sqs s'' = sqs demo_after \<and> orders s'' = orders demo_state \<and>
           order_items s'' = order_items demo_state) \<and>
   sqs demo_state = [] \<and>
   sqs demo_after =
     [\<lparr>QueueUrl = ''orders'', MessageBody = order_created_event demo_request 1 2000\<rparr>]"
proof -
  have "sqs demo_state = []"
    and "sqs demo_after =
      [\<lparr>QueueUrl = ''orders'', MessageBody = order_created_event demo_request 1 2000\<rparr>]"
    by (simp_all add: demo_defs)
  with demo_run create_order_publishes_synchronously [OF demo_run] show ?thesis
    by blast
qed

text \<open>
  Claim C2 as stated fails: in the scenario the queue, empty before the call, holds the
  \<open>OrderCreated\<close> message when the call returns.
\<close>

theorem create_order_outbox_counterexample:
  "fst (create_order demo_env demo_request demo_state) = Inr (order_created_response 1 2000) \<and>
   sqs demo_state = [] \<and>
   sqs (snd (create_order demo_env demo_request demo_state)) =
     [\<lparr>QueueUrl = ''orders'', MessageBody = order_created_event demo_request 1 2000\<rparr>]"
  by (simp add: demo_run) (simp add: demo_defs)

text \<open>
  Claim C8, as the code has it. The amount written to storage is the exact decimal total
  and the order row carries the currency code \<open>USD\<close>; the response of \<open>create_order\<close> and
  the message it sends carry that total converted by \<^verbatim>\<open>float\<close>, and neither has a
  currency entry.
\<close>

theorem create_order_money_representation:
  assumes "create_order e r s = (Inr resp, s')"
  shows "\<exists>ord. orders s' = orders s @ [ord] \<and> order_currency ord = ''USD'' \<and>
           map_of resp ''total'' = Some (JFloat (float (order_total ord))) \<and>
           map_of resp ''currency'' = None \<and>
           list_all (\<lambda>m. map_of (MessageBody m) ''total'' = Some (JFloat (float (order_total ord))) \<and>
                         map_of (MessageBody m) ''currency'' = None)
             (drop (length (sqs s)) (sqs s'))"
proof -
  note b = create_order_body_Inr [OF create_order_Inr_body [OF assms]]
  from b(3) b(4) show ?thesis
    by (auto simp: order_created_response_def order_created_event_def split: option.splits)
qed

theorem create_order_money_representation_witness:
  "create_order demo_env demo_request demo_state =
     (Inr (order_created_response 1 2000), demo_after) \<and>
   (\<exists>ord. orders demo_after = orders demo_state @ [ord] \<and> order_currency ord = ''USD'' \<and>
      map_of (order_created_response 1 2000) ''total'' = Some (JFloat (float (order_total ord))) \<and>
      map_of (order_created_response 1 2000) ''currency'' = None \<and>
      list_all (\<lambda>m. map_of (MessageBody m) ''total'' = Some (JFloat (float (order_total ord))) \<and>
                    map_of (MessageBody m) ''currency'' = None)
        (drop (length (sqs demo_state)) (sqs demo_after)))"
  using demo_run create_order_money_representation [OF demo_run] by (rule conjI)

text \<open>
  Claim C8 as stated fails: in the scenario the total of the response and of the queued
  message is a binary float, and neither carries a currency code.
\<close>

theorem create_order_float_counterexample:
  "fst (create_order demo_env demo_request demo_state) =
     Inr [(''order_id'', JStr (str 1)), (''status'', JStr ''pending''),
          (''total'', JFloat (float 2000)), (''message'', JStr ''Order created successfully'')] \<and>
   map (\<lambda>m. map_of (MessageBody m) ''total'')
     (sqs (snd (create_order demo_env demo_request demo_state))) = [Some (JFloat (float 2000))] \<and>
   map (\<lambda>m. map_of (MessageBody m) ''currency'')
     (sqs (snd (create_order demo_env demo_request demo_state))) = [None]"
  by (simp add: demo_run) (simp add: demo_defs order_created_response_def order_created_event_def)

section \<open>Failure and unavailable carts\<close>

lemma rollback_same: "rollback s s = s"
  by (simp add: rollback_def)



lemma create_order_consumes_cart:
  assumes "create_order e r s = (Inr resp, s')"
  shows "filter (\<lambda>item. ci_cart_id item = cart_id r) (cart_items s') = []"
    and "filter (\<lambda>c. cart_row_id c = cart_id r) (cart s') = []"
    and "redis s' = redis s"
proof -
  note b = create_order_body_Inr [OF create_order_Inr_body [OF assms]]
  from b(4) show "filter (\<lambda>item. ci_cart_id item = cart_id r) (cart_items s') = []"
    by (simp add: filter_empty_conv)
  from b(4) show "filter (\<lambda>c. cart_row_id c = cart_id r) (cart s') = []"
    by (simp add: filter_empty_conv)
  from b(4) show "redis s' = redis s" by simp
qed





text \<open>
  Claim C4, as the code has it. \<open>create_order\<close> never reads the \<open>cart\<close> table and has no
  notion of a claimed or an expired cart. When the store answers and no cart item has
  the requested cart identifier (the cart never existed, has no items, or was already
  converted, which deletes its items) the call fails with 404 \<open>Cart is empty\<close> and changes
  nothing.
\<close>

theorem create_order_without_items:
  assumes "filter (\<lambda>item. ci_cart_id item = cart_id r) (cart_items s) = []"
    and "\<not> fails e Acquire" and "\<not> fails e Fetch_cart_items"
  shows "create_order e r s = (Inl (HTTPException 404 ''Cart is empty''), s)"
  using assms
  by (simp add: create_order_def transaction_def create_order_body_def rollback_same)

theorem create_order_without_items_witness:
  "filter (\<lambda>item. ci_cart_id item = cart_id demo_request) (cart_items demo_after) = [] \<and>
   \<not> fails demo_env Acquire \<and> \<not> fails demo_env Fetch_cart_items \<and>
   create_order demo_env demo_request demo_after =
     (Inl (HTTPException 404 ''Cart is empty''), demo_after)"
proof -
  have h1: "filter (\<lambda>item. ci_cart_id item = cart_id demo_request) (cart_items demo_after) = []"
    and h2: "\<not> fails demo_env Acquire" and h3: "\<not> fails demo_env Fetch_cart_items"
    by (simp_all add: demo_defs)
  from h1 h2 h3 create_order_without_items [OF h1 h2 h3] show ?thesis by blast
qed

text \<open>
  Claim C4 as stated fails for an expired cart: the cart of the scenario expires at
  87400, and a request at 200000 still turns it into an order.
\<close>

theorem create_order_expired_counterexample:
  "map cart_row_expires_at (cart demo_state) = [87400] \<and> now late_env = 200000 \<and>
   fst (create_order late_env demo_request demo_state) = Inr (order_created_response 1 2000) \<and>
   map order_row_id (orders (snd (create_order late_env demo_request demo_state))) = [1]"
  by (simp add: create_order_def transaction_def create_order_body_def publish_def
      total_eval order_item_of_def rollback_def demo_defs Let_def)

section \<open>Reading a cart after it was ordered\<close>

text \<open>
  Claim C5, as the code has it. \<open>create_order\<close> does not touch the cache. After a
  successful call, \<open>get_cart\<close> for the same cart answers from the cache as long as an entry
  written before the call has not expired, and returns the cached cart; without a live
  entry it finds no cart row and fails with 404 \<open>Cart not found\<close> (or with 500 when the
  store does not answer).
\<close>

theorem get_cart_after_create_order:
  assumes "create_order e r s = (Inr resp, s')" and "\<not> fails e' Redis_get"
  shows "get_cart e' (cart_id r) s' =
           (case redis_get (redis s) (cart_id r) (now e') of
              Some cached \<Rightarrow> (Inr cached, s')
            | None \<Rightarrow>
                if fails e' Acquire \<or> fails e' Select_cart
                then (Inl (HTTPException 500 ''Failed to fetch cart''), s')
                else (Inl (HTTPException 404 ''Cart not found''), s'))"
proof -
  note c = create_order_consumes_cart [OF assms(1)]
  from c(2) have "find (\<lambda>c. cart_row_id c = cart_id r) (cart s') = None"
    by (simp add: find_None_iff filter_empty_conv)
  with assms(2) c(3) show ?thesis
    by (simp add: get_cart_def split: option.splits)
qed

lemma demo_get_cart:
  "get_cart demo_env 1 demo_state = (Inr demo_cart_result, demo_cached)"
  by (simp add: get_cart_def redis_get_def redis_setex_def select_cart_items_def
      cart_item_view_of_def demo_defs Let_def)

lemma demo_run_cached:
  "create_order demo_env demo_request demo_cached =
     (Inr (order_created_response 1 2000), demo_after_cached)"
  by (simp add: create_order_def transaction_def create_order_body_def publish_def
      total_eval order_item_of_def demo_defs Let_def)

theorem get_cart_after_create_order_witness:
  "create_order demo_env demo_request demo_state =
     (Inr (order_created_response 1 2000), demo_after) \<and> \<not> fails later_env Redis_get \<and>
   get_cart later_env (cart_id demo_request) demo_after =
     (Inl (HTTPException 404 ''Cart not found''), demo_after)"
proof -
  have h: "\<not> fails later_env Redis_get"
    by (simp add: demo_defs)
  have "redis_get (redis demo_state) (cart_id demo_request) (now later_env) = None"
    and "\<not> (fails later_env Acquire \<or> fails later_env Select_cart)"
    by (simp_all add: redis_get_def demo_defs)
  with get_cart_after_create_order [OF demo_run h]
  have "get_cart later_env (cart_id demo_request) demo_after =
          (Inl (HTTPException 404 ''Cart not found''), demo_after)"
    by simp
  with demo_run h show ?thesis by blast
qed

text \<open>
  Claim C5 as stated fails when the cart was read before it was ordered: the entry
  cached at 1000 lives until 1300, and a read at 1100, after the order was committed and
  the cart row deleted, returns the cart.
\<close>

theorem get_cart_stale_counterexample:
  "get_cart demo_env 1 demo_state = (Inr demo_cart_result, demo_cached) \<and>
   create_order demo_env demo_request demo_cached =
     (Inr (order_created_response 1 2000), demo_after_cached) \<and>
   cart demo_after_cached = [] \<and>
   get_cart later_env 1 demo_after_cached = (Inr demo_cart_result, demo_after_cached)"
proof -
  have "cart demo_after_cached = []"
    by (simp add: demo_defs)
  moreover have
    "get_cart later_env 1 demo_after_cached = (Inr demo_cart_result, demo_after_cached)"
    by (simp add: get_cart_def redis_get_def demo_defs)
  ultimately show ?thesis
    using demo_get_cart demo_run_cached by blast
qed

section \<open>Repeated requests and fresh identifiers\<close>

text \<open>
  A cart is converted at most once by requests that run one after another: the
  conversion deletes the cart items, so a later request for the same cart finds none.
\<close>

lemma create_order_repeated:
  assumes "create_order e r s = (Inr resp, s')" and "cart_id r' = cart_id r"
    and "\<not> fails e' Acquire" and "\<not> fails e' Fetch_cart_items"
  shows "create_order e' r' s' = (Inl (HTTPException 404 ''Cart is empty''), s')"
  using create_order_consumes_cart(1) [OF assms(1)] assms(2-4)
  by (simp add: create_order_def transaction_def create_order_body_def rollback_same)

text \<open>
  \<open>ids_fresh\<close> is an invariant of the service: it holds in a store without orders and
  every handler preserves it, whether it succeeds or fails.
\<close>

lemma ids_fresh_mono:
  assumes "ids_fresh s" and "orders s' = orders s" and "order_items s' = order_items s"
    and "next_order_id s \<le> next_order_id s'"
  shows "ids_fresh s'"
  using assms
  by (auto simp: ids_fresh_def list_all_iff)

lemma create_order_body_next_id:
  assumes "create_order_body e r s = (res, s1)"
  shows "next_order_id s \<le> next_order_id s1"
  using assms
  by (auto simp: create_order_body_def Let_def split: if_splits option.splits
      dest!: insert_order_items_Some publish_Some)

lemma ids_fresh_create_order:
  assumes "ids_fresh s" and "create_order e r s = (res, s')"
  shows "ids_fresh s'"
proof (cases res)
  case (Inr resp)
  note b = create_order_body_Inr [OF create_order_Inr_body [OF assms(2) [unfolded Inr]]]
  have "list_all (\<lambda>ord. order_row_id ord < Suc (next_order_id s)) (orders s)"
    and "list_all (\<lambda>oi. oi_order_id oi < Suc (next_order_id s)) (order_items s)"
    using assms(1) by (auto simp: ids_fresh_def list_all_iff)
  then show ?thesis
    by (subst b(4)) (auto simp: ids_fresh_def list_all_iff order_item_of_def)
next
  case (Inl x)
  show ?thesis
  proof (cases "fails e Acquire")
    case True
    with assms show ?thesis by (auto simp: create_order_def)
  next
    case False
    obtain res1 s1 where b: "create_order_body e r s = (res1, s1)"
      by (cases "create_order_body e r s")
    have "s' = rollback s s1"
    proof (cases res1)
      case (Inl y)
      with assms(2) False b show ?thesis
        by (cases y) (simp_all add: create_order_def transaction_def)
    next
      case (Inr v)
      with assms(2) Inl False b show ?thesis
        by (simp add: create_order_def transaction_def split: if_splits)
    qed
    then have "orders s' = orders s" and "order_items s' = order_items s"
      and "next_order_id s' = next_order_id s1"
      by (simp_all add: rollback_def)
    with create_order_body_next_id [OF b] assms(1) show ?thesis
      by (auto intro: ids_fresh_mono)
  qed
qed

lemma ids_fresh_update_order_status:
  assumes "ids_fresh s" and "update_order_status e oid st s = (res, s')"
  shows "ids_fresh s'"
  using assms
  by (auto simp: update_order_status_def ids_fresh_def list_all_iff
      split: if_splits)

lemma ids_fresh_get_cart:
  assumes "ids_fresh s" and "get_cart e cid s = (res, s')"
  shows "ids_fresh s'"
  using assms
  by (auto simp: get_cart_def ids_fresh_def Let_def split: if_splits option.splits)

lemma insert_cart_items_frame:
  "orders (case insert_cart_items f cid k items s of Inl t \<Rightarrow> t | Inr t \<Rightarrow> t) = orders s \<and>
   order_items (case insert_cart_items f cid k items s of Inl t \<Rightarrow> t | Inr t \<Rightarrow> t) =
     order_items s \<and>
   next_order_id (case insert_cart_items f cid k items s of Inl t \<Rightarrow> t | Inr t \<Rightarrow> t) =
     next_order_id s"
  by (induction items arbitrary: k s) simp_all

lemma ids_fresh_create_cart:
  assumes "ids_fresh s" and "create_cart e r s = (res, s')"
  shows "ids_fresh s'"
proof -
  let ?s1 = "s\<lparr>cart := cart s @
                    [\<lparr>cart_row_id = next_cart_id s, cart_row_user_id = cart_request_user_id r,
                      cart_row_created_at = now e, cart_row_expires_at = now e + 86400\<rparr>],
                   next_cart_id := Suc (next_cart_id s)\<rparr>"
  note f = insert_cart_items_frame [of "fails e" "next_cart_id s" 0 "cart_request_items r" ?s1]
  from assms(2) f have "orders s' = orders s \<and> order_items s' = order_items s \<and>
      next_order_id s' = next_order_id s"
    by (auto simp: create_cart_def Let_def split: if_splits sum.splits)
  with assms(1) show ?thesis
    by (simp add: ids_fresh_def)
qed

lemma reachable_ids_fresh: "reachable s \<Longrightarrow> ids_fresh s"
proof (induction rule: reachable.induct)
  case (initial s)
  then show ?case by (simp add: ids_fresh_def)
next
  case (after_create_cart s e cr res1 s')
  then show ?case by (blast intro: ids_fresh_create_cart)
next
  case (after_get_cart s e cid res2 s')
  then show ?case by (blast intro: ids_fresh_get_cart)
next
  case (after_create_order s e r res3 s')
  then show ?case by (blast intro: ids_fresh_create_order)
next
  case (after_update_order_status s e oid st res4 s')
  then show ?case by (blast intro: ids_fresh_update_order_status)
qed

section \<open>Several requests for one cart: properties\<close>

text \<open>Cutting the handler after its \<^verbatim>\<open>SELECT\<close> does not change it.\<close>

lemma create_order_split:
  "create_order e r s = finish_order e r (begin_order e r s) s"
  by (simp add: create_order_def finish_order_def begin_order_def transaction_def
      create_order_body_def create_order_rest_def rollback_same Let_def)

lemma create_order_no_items:
  assumes "filter (\<lambda>item. ci_cart_id item = cart_id r) (cart_items s) = []"
  shows "create_order e r s =
           (Inl (if fails e Acquire \<or> fails e Fetch_cart_items
                 then HTTPException 500 ''Failed to create order''
                 else HTTPException 404 ''Cart is empty''), s)"
  using assms
  by (simp add: create_order_def transaction_def create_order_body_def rollback_same)

lemma create_orders_no_items:
  assumes "filter (\<lambda>item. ci_cart_id item = c) (cart_items s) = []"
    and "list_all (\<lambda>call. cart_id (snd call) = c) calls"
  shows "create_orders calls s =
           (map (\<lambda>call. Inl (if fails (fst call) Acquire \<or> fails (fst call) Fetch_cart_items
                              then HTTPException 500 ''Failed to create order''
                              else HTTPException 404 ''Cart is empty'')) calls, s)"
  using assms
proof (induction calls)
  case Nil
  then show ?case by simp
next
  case (Cons call calls)
  obtain e r where call: "call = (e, r)" by (cases call)
  with Cons.prems have "cart_id r = c" by simp
  with Cons.prems(1) have
    "filter (\<lambda>item. ci_cart_id item = cart_id r) (cart_items s) = []" by simp
  note one = create_order_no_items [OF this, of e]
  from Cons.prems have "list_all (\<lambda>call. cart_id (snd call) = c) calls" by simp
  from Cons.IH [OF Cons.prems(1) this] one call show ?case
    by simp
qed

lemma create_orders_length:
  "create_orders calls s = (results, s') \<Longrightarrow> length results = length calls"
proof (induction calls arbitrary: s results s')
  case Nil
  then show ?case by simp
next
  case (Cons call calls)
  obtain e r where call: "call = (e, r)" by (cases call)
  obtain res s1 where one: "create_order e r s = (res, s1)"
    by (cases "create_order e r s")
  obtain rest s2 where more: "create_orders calls s1 = (rest, s2)"
    by (cases "create_orders calls s1")
  from Cons.prems call one more have "results = res # rest" by simp
  with Cons.IH [OF more] show ?case by simp
qed

lemma demo_repeat:
  "create_orders [(demo_env, demo_request), (demo_env, demo_request), (demo_env, demo_request)]
     demo_state =
     ([Inr (order_created_response 1 2000), Inl (HTTPException 404 ''Cart is empty''),
       Inl (HTTPException 404 ''Cart is empty'')], demo_after)"
proof -
  have "create_order demo_env demo_request demo_after =
          (Inl (HTTPException 404 ''Cart is empty''), demo_after)"
    by (simp add: create_order_def transaction_def create_order_body_def rollback_same demo_defs)
  with demo_run show ?thesis by simp
qed

text \<open>
  Claim C1, as the code has it. Among \<open>create_order\<close> calls for one cart identifier
  that run one after another, at most one succeeds, and every call after the successful
  one for which the store answers fails with 404 \<open>Cart is empty\<close>: the code has no
  \<^verbatim>\<open>CartUnavailableError\<close>, and what stops the later calls is that the successful one
  has deleted the cart items.
\<close>

theorem create_orders_at_most_one:
  assumes "list_all (\<lambda>call. cart_id (snd call) = c) calls"
    and "create_orders calls s = (results, s')"
  shows "length (filter (\<lambda>res. \<not> isl res) results) \<le> 1 \<and>
         (\<forall>i j. i < j \<and> j < length calls \<and> \<not> isl (results ! i) \<and>
                \<not> fails (fst (calls ! j)) Acquire \<and>
                \<not> fails (fst (calls ! j)) Fetch_cart_items \<longrightarrow>
                results ! j = Inl (HTTPException 404 ''Cart is empty''))"
  using assms
proof (induction calls arbitrary: s results s')
  case Nil
  then show ?case by simp
next
  case (Cons call calls)
  obtain e r where call: "call = (e, r)" by (cases call)
  obtain res s1 where one: "create_order e r s = (res, s1)"
    by (cases "create_order e r s")
  obtain rest s2 where more: "create_orders calls s1 = (rest, s2)"
    by (cases "create_orders calls s1")
  from Cons.prems(2) call one more have results: "results = res # rest" by simp
  from Cons.prems(1) call have c: "cart_id r = c"
    and all: "list_all (\<lambda>call. cart_id (snd call) = c) calls" by simp_all
  note IH = Cons.IH [OF all more]
  show ?case
  proof (cases res)
    case (Inl x)
    have "\<forall>i j. i < j \<and> j < length (call # calls) \<and> \<not> isl (results ! i) \<and>
                \<not> fails (fst ((call # calls) ! j)) Acquire \<and>
                \<not> fails (fst ((call # calls) ! j)) Fetch_cart_items \<longrightarrow>
                results ! j = Inl (HTTPException 404 ''Cart is empty'')"
    proof (intro allI impI)
      fix i j
      assume a: "i < j \<and> j < length (call # calls) \<and> \<not> isl (results ! i) \<and>
                \<not> fails (fst ((call # calls) ! j)) Acquire \<and>
                \<not> fails (fst ((call # calls) ! j)) Fetch_cart_items"
      with results Inl obtain i' where i: "i = Suc i'" by (cases i) auto
      from a obtain j' where j: "j = Suc j'" by (cases j) auto
      from a i j results have "i' < j' \<and> j' < length calls \<and> \<not> isl (rest ! i') \<and>
                \<not> fails (fst (calls ! j')) Acquire \<and>
                \<not> fails (fst (calls ! j')) Fetch_cart_items" by simp
      with IH have "rest ! j' = Inl (HTTPException 404 ''Cart is empty'')" by blast
      with results j show "results ! j = Inl (HTTPException 404 ''Cart is empty'')" by simp
    qed
    with IH results Inl show ?thesis by simp
  next
    case (Inr resp)
    from create_order_consumes_cart(1) [OF one [unfolded Inr]] c
    have "filter (\<lambda>item. ci_cart_id item = c) (cart_items s1) = []" by simp
    from create_orders_no_items [OF this all] more
    have rest: "rest = map (\<lambda>call. Inl (if fails (fst call) Acquire \<or> fails (fst call) Fetch_cart_items
                              then HTTPException 500 ''Failed to create order''
                              else HTTPException 404 ''Cart is empty'')) calls" by simp
    then have none: "filter (\<lambda>res. \<not> isl res) rest = []"
      by (simp add: filter_empty_conv)
    have "\<forall>i j. i < j \<and> j < length (call # calls) \<and> \<not> isl (results ! i) \<and>
                \<not> fails (fst ((call # calls) ! j)) Acquire \<and>
                \<not> fails (fst ((call # calls) ! j)) Fetch_cart_items \<longrightarrow>
                results ! j = Inl (HTTPException 404 ''Cart is empty'')"
    proof (intro allI impI)
      fix i j
      assume a: "i < j \<and> j < length (call # calls) \<and> \<not> isl (results ! i) \<and>
                \<not> fails (fst ((call # calls) ! j)) Acquire \<and>
                \<not> fails (fst ((call # calls) ! j)) Fetch_cart_items"
      from a obtain j' where j: "j = Suc j'" by (cases j) auto
      with a have "j' < length calls" and "\<not> fails (fst (calls ! j')) Acquire"
        and "\<not> fails (fst (calls ! j')) Fetch_cart_items" by simp_all
      with rest have "rest ! j' = Inl (HTTPException 404 ''Cart is empty'')" by simp
      with results j show "results ! j = Inl (HTTPException 404 ''Cart is empty'')" by simp
    qed
    with none results Inr show ?thesis by simp
  qed
qed

theorem create_orders_at_most_one_witness:
  "list_all (\<lambda>call. cart_id (snd call) = 1)
     [(demo_env, demo_request), (demo_env, demo_request), (demo_env, demo_request)] \<and>
   create_orders [(demo_env, demo_request), (demo_env, demo_request), (demo_env, demo_request)]
     demo_state =
     ([Inr (order_created_response 1 2000), Inl (HTTPException 404 ''Cart is empty''),
       Inl (HTTPException 404 ''Cart is empty'')], demo_after) \<and>
   \<not> fails demo_env Acquire \<and> \<not> fails demo_env Fetch_cart_items \<and>
   length (filter (\<lambda>res. \<not> isl res)
     [Inr (order_created_response 1 2000), Inl (HTTPException 404 ''Cart is empty''),
      Inl (HTTPException 404 ''Cart is empty'')]) \<le> 1 \<and>
   \<not> isl ([Inr (order_created_response 1 2000), Inl (HTTPException 404 ''Cart is empty''),
            Inl (HTTPException 404 ''Cart is empty'')] ! 0) \<and>
   [Inr (order_created_response 1 2000), Inl (HTTPException 404 ''Cart is empty''),
    Inl (HTTPException 404 ''Cart is empty'')] ! 2 = Inl (HTTPException 404 ''Cart is empty'')"
proof -
  let ?calls = "[(demo_env, demo_request), (demo_env, demo_request), (demo_env, demo_request)]"
  let ?results = "[Inr (order_created_response 1 2000), Inl (HTTPException 404 ''Cart is empty''),
                   Inl (HTTPException 404 ''Cart is empty'')] :: (exn + dict) list"
  have h: "list_all (\<lambda>call. cart_id (snd call) = 1) ?calls"
    by (simp add: demo_defs)
  have answers: "\<not> fails demo_env Acquire" "\<not> fails demo_env Fetch_cart_items"
    by (simp_all add: demo_defs)
  note t = create_orders_at_most_one [OF h demo_repeat]
  from t have count: "length (filter (\<lambda>res. \<not> isl res) ?results) \<le> 1"
    by (rule conjunct1)
  have pre: "(0 :: nat) < 2 \<and> 2 < length ?calls \<and> \<not> isl (?results ! 0) \<and>
      \<not> fails (fst (?calls ! 2)) Acquire \<and> \<not> fails (fst (?calls ! 2)) Fetch_cart_items"
    using answers by simp
  from t have "\<forall>i j. i < j \<and> j < length ?calls \<and> \<not> isl (?results ! i) \<and>
      \<not> fails (fst (?calls ! j)) Acquire \<and> \<not> fails (fst (?calls ! j)) Fetch_cart_items \<longrightarrow>
      ?results ! j = Inl (HTTPException 404 ''Cart is empty'')"
    by (rule conjunct2)
  with pre have later: "?results ! 2 = Inl (HTTPException 404 ''Cart is empty'')"
    by blast
  from pre have first: "\<not> isl (?results ! 0)" by blast
  from h demo_repeat answers count first later show ?thesis
    by blast
qed

text \<open>
  Claim C1 as stated fails for calls that overlap. Two requests for the cart of the
  scenario that both read its items before either deletes them both succeed: the store
  ends with the orders 1 and 2, each with its copy of the cart's items, and two
  \<open>OrderCreated\<close> messages are in the queue.
\<close>

theorem create_orders_overlapping_counterexample:
  "cart_id demo_request = 1 \<and>
   fst (create_orders_overlapping demo_env demo_request demo_env demo_request demo_state) =
     Inr (order_created_response 1 2000) \<and>
   fst (snd (create_orders_overlapping demo_env demo_request demo_env demo_request demo_state)) =
     Inr (order_created_response 2 2000) \<and>
   map order_row_id
     (orders (snd (snd (create_orders_overlapping demo_env demo_request demo_env demo_request
        demo_state)))) = [1, 2] \<and>
   map oi_order_id
     (order_items (snd (snd (create_orders_overlapping demo_env demo_request demo_env
        demo_request demo_state)))) = [1, 2] \<and>
   length (sqs (snd (snd (create_orders_overlapping demo_env demo_request demo_env demo_request
     demo_state)))) = 2"
  by (simp add: create_orders_overlapping_def begin_order_def finish_order_def
      transaction_def create_order_rest_def publish_def total_eval order_item_of_def
      demo_defs Let_def numeral_2_eq_2)

end
